theory Spec2Isabelle
  imports Complex_Main "HOL-Library.Word" "HOL-Library.Sublist"
begin

unbundle bit_operations_syntax

section \<open>Layered terrain raster engine: the TerrainLayer class\<close>

text \<open>
  A shallow embedding of \<^verbatim>\<open>scripts/TerrainLayer.js\<close> (class \<^verbatim>\<open>TerrainLayer\<close> and the
  class \<^verbatim>\<open>TerrainLevel\<close> that follows it in the same file). Methods become functions
  from the layer object to the layer object; a JavaScript \<^verbatim>\<open>TypeError\<close> or
  \<^verbatim>\<open>ReferenceError\<close> is the left injection of a sum. Objects owned by the host
  (render textures, pixel caches) are type parameters, and the host calls that act on
  them are function parameters of the methods that make the call.
\<close>

subsection \<open>Constants\<close>

definition MAX_LAYERS :: nat where
  "MAX_LAYERS = 6"


text \<open>\<^verbatim>\<open>Math.ceil(MAX_LAYERS / 3)\<close>\<close>

definition NUM_TEXTURES :: nat where
  "NUM_TEXTURES = (MAX_LAYERS + 2) div 3"

definition NUM_UNDO :: nat where
  "NUM_UNDO = 20"


subsection \<open>Data\<close>

datatype error = TypeError | ReferenceError | CapacityExceeded

type_synonym point = "int \<times> int"

text \<open>
  A terrain, as far as this file reads its own data: \<^verbatim>\<open>terrain.id\<close> and
  \<^verbatim>\<open>terrain.name\<close>. Its pixel value is scene-local and is read through the scene map
  (see \<open>pixelValue\<close> below).
\<close>

record terrain =
  tid :: string
  name :: string

text \<open>
  The four shape classes (\<^verbatim>\<open>TERRAIN_SHAPES\<close>), with the geometry each one carries, and
  the fields \<^verbatim>\<open>origin\<close>, \<^verbatim>\<open>pixelValue\<close> and \<^verbatim>\<open>layer\<close> they share.
\<close>

datatype geometry =
    TerrainGridSquare
  | TerrainGridHexagon
  | TerrainPolygon "point list"
  | TerrainShapeHoled "point list list"

record shape =
  geom :: geometry
  origin :: point
  shapePixelValue :: int
  layer :: nat

text \<open>
  A \<^verbatim>\<open>PIXI.Graphics\<close> built by \<^verbatim>\<open>_drawTerrainShape\<close>: the colour array handed to
  \<^verbatim>\<open>PIXI.Color\<close> (red, green, blue) and the shape drawn.
\<close>

record graphics =
  colorArr :: "rat list"
  drawn :: shape

record label =
  labelAt :: point
  caption :: string

text \<open>An element of a shape queue: \<^verbatim>\<open>{ shape, graphics, text }\<close>.\<close>

record queueObj =
  qshape :: shape
  qgraphics :: graphics
  qtext :: "label option"

text \<open>
  The fields of the layer object. \<^verbatim>\<open>currentLayer\<close> is \<^verbatim>\<open>this.toolbar.currentLayer\<close>.
  The arrays are lists; reading an index that is not there gives \<^verbatim>\<open>undefined\<close> in the
  source, which is written out wherever an index is read. The scene map is a
  \<^verbatim>\<open>TerrainMap\<close>, kept as the list of its entries in insertion order.
\<close>

record ('tex, 'cache, 'pc) TerrainLayer =
  initialized :: bool
  requiresSave :: bool
  sceneMap :: "(int \<times> terrain) list"
  pixelCacheArray :: "'cache list"
  pixelCache :: "'pc"
  pixelCacheDirty :: "8 word list"
  temporaryGraphics :: "point \<rightharpoonup> shape \<times> graphics"
  graphicsLayers :: "graphics list list"
  terrainTextures :: "'tex list"
  shapeQueueArray :: "queueObj list list"
  currentLayer :: nat

definition at_index :: "'a list \<Rightarrow> int \<Rightarrow> 'a option" where
  "at_index xs i = (if 0 \<le> i \<and> nat i < length xs then Some (xs ! nat i) else None)"

text \<open>
  The operator \<^verbatim>\<open>~\<close> of JavaScript on an integer: the operand is brought into the
  signed 32-bit range (\<^verbatim>\<open>ToInt32\<close>, modulo 2^32) and its bits are flipped.
\<close>

definition bitwiseNot :: "int \<Rightarrow> int" where
  "bitwiseNot x = sint (NOT (word_of_int x :: 32 word))"

subsection \<open>Pixel cache\<close>

text \<open>\<^verbatim>\<open>get pixelCacheDirty() { return this.#pixelCacheDirty[0] || this.#pixelCacheDirty[1]; }\<close>\<close>

definition dirtyAt :: "('tex, 'cache, 'pc) TerrainLayer \<Rightarrow> int \<Rightarrow> bool" where
  "dirtyAt s i = (case at_index (pixelCacheDirty s) i of None \<Rightarrow> False | Some d \<Rightarrow> d \<noteq> 0)"

definition pixelCacheDirty_get :: "('tex, 'cache, 'pc) TerrainLayer \<Rightarrow> bool" where
  "pixelCacheDirty_get s = (dirtyAt s 0 \<or> dirtyAt s 1)"

text \<open>
  \<^verbatim>\<open>_clearPixelCacheArray(layer = -1)\<close>. The branch taken when \<^verbatim>\<open>~layer\<close> is truthy fills
  the dirty array with 1; the other branch writes 1 at \<^verbatim>\<open>Math.floor(layer / 3)\<close>. The
  array is a \<^verbatim>\<open>Uint8Array\<close>, which ignores a write at an index it does not have.
\<close>

definition clearPixelCacheArray ::
  "int \<Rightarrow> ('tex, 'cache, 'pc) TerrainLayer \<Rightarrow> ('tex, 'cache, 'pc) TerrainLayer" where
  "clearPixelCacheArray lyr s =
     (if bitwiseNot lyr \<noteq> 0 then s\<lparr>pixelCacheDirty := map (\<lambda>_. 1) (pixelCacheDirty s)\<rparr>
      else
        (let idx = lyr div 3 in
         if 0 \<le> idx \<and> nat idx < length (pixelCacheDirty s)
         then s\<lparr>pixelCacheDirty := (pixelCacheDirty s)[nat idx := 1]\<rparr>
         else s))"

text \<open>
  \<^verbatim>\<open>#refreshPixelCacheArray(i)\<close>. \<^verbatim>\<open>updateFromTexture\<close> belongs to
  \<^verbatim>\<open>TerrainLayerPixelCache\<close> and is a parameter; calling it on an absent cache is a
  \<^verbatim>\<open>TypeError\<close>, and an absent texture is handed over as \<^verbatim>\<open>undefined\<close>.
\<close>

definition refreshPixelCacheArray ::
  "('tex option \<Rightarrow> 'cache \<Rightarrow> 'cache) \<Rightarrow> nat \<Rightarrow> ('tex, 'cache, 'pc) TerrainLayer
    \<Rightarrow> error + ('tex, 'cache, 'pc) TerrainLayer" where
  "refreshPixelCacheArray updateFromTexture i s =
     (let tex = at_index (terrainTextures s) (int i) in
      case at_index (pixelCacheArray s) (int i) of
        None \<Rightarrow> Inl TypeError
      | Some c \<Rightarrow>
          Inr (s\<lparr>pixelCacheArray := (pixelCacheArray s)[i := updateFromTexture tex c],
                 pixelCacheDirty := (pixelCacheDirty s)[i := 0]\<rparr>))"

text \<open>
  \<^verbatim>\<open>#refreshPixelCache()\<close>. \<^verbatim>\<open>updateFromTerrainLayerCaches\<close> belongs to
  \<^verbatim>\<open>TerrainPixelCache\<close> and is a parameter; it receives the two layer caches as the
  array holds them.
\<close>

definition refreshPixelCache ::
  "('tex option \<Rightarrow> 'cache \<Rightarrow> 'cache) \<Rightarrow> ('cache option \<Rightarrow> 'cache option \<Rightarrow> 'pc \<Rightarrow> 'pc)
    \<Rightarrow> ('tex, 'cache, 'pc) TerrainLayer \<Rightarrow> error + ('tex, 'cache, 'pc) TerrainLayer" where
  "refreshPixelCache updateFromTexture updateFromTerrainLayerCaches s =
     (case (if dirtyAt s 0 then refreshPixelCacheArray updateFromTexture 0 s else Inr s) of
        Inl e \<Rightarrow> Inl e
      | Inr s1 \<Rightarrow>
          (case (if dirtyAt s1 1 then refreshPixelCacheArray updateFromTexture 1 s1 else Inr s1) of
             Inl e \<Rightarrow> Inl e
           | Inr s2 \<Rightarrow>
               (let cache0 = at_index (pixelCacheArray s2) 0;
                    cache1 = at_index (pixelCacheArray s2) 1
                in Inr (s2\<lparr>pixelCache :=
                          updateFromTerrainLayerCaches cache0 cache1 (pixelCache s2)\<rparr>))))"

text \<open>\<^verbatim>\<open>get pixelCache()\<close>: the value read, and the layer object after the read.\<close>

definition pixelCache_get ::
  "('tex option \<Rightarrow> 'cache \<Rightarrow> 'cache) \<Rightarrow> ('cache option \<Rightarrow> 'cache option \<Rightarrow> 'pc \<Rightarrow> 'pc)
    \<Rightarrow> ('tex, 'cache, 'pc) TerrainLayer \<Rightarrow> error + 'pc \<times> ('tex, 'cache, 'pc) TerrainLayer" where
  "pixelCache_get updateFromTexture updateFromTerrainLayerCaches s =
     (if pixelCacheDirty_get s
      then (case refreshPixelCache updateFromTexture updateFromTerrainLayerCaches s of
              Inl e \<Rightarrow> Inl e
            | Inr s' \<Rightarrow> Inr (pixelCache s', s'))
      else Inr (pixelCache s, s))"

subsection \<open>Scene map\<close>

text \<open>
  The class \<^verbatim>\<open>TerrainMap\<close> (\<^verbatim>\<open>TerrainMap.js\<close>) is not part of the sources at hand. It
  is the Terrain Registry of the specification: a map from the integer key to the
  terrain, with lookup by key and by terrain id. Each of its operations that
  \<^verbatim>\<open>TerrainLayer\<close> calls is modelled below on the list of entries.
\<close>

text \<open>
  Modelled from the spec: \<^verbatim>\<open>TerrainMap.get\<close> (\<^verbatim>\<open>TerrainMap.js\<close> is missing), the
  registry's \<^verbatim>\<open>lookup(key)\<close>: the terrain bound to the key, if any.
\<close>

definition TerrainMap_get :: "(int \<times> terrain) list \<Rightarrow> int \<Rightarrow> terrain option" where
  "TerrainMap_get m k = map_of m k"

text \<open>
  Modelled from the spec: \<^verbatim>\<open>TerrainMap.has\<close> (\<^verbatim>\<open>TerrainMap.js\<close> is missing): whether the
  key is bound.
\<close>

definition TerrainMap_has :: "(int \<times> terrain) list \<Rightarrow> int \<Rightarrow> bool" where
  "TerrainMap_has m k = (map_of m k \<noteq> None)"

text \<open>
  Modelled from the spec: \<^verbatim>\<open>TerrainMap.set\<close> (\<^verbatim>\<open>TerrainMap.js\<close> is missing). It binds
  one key to the terrain, in place of the binding the key had, and touches no other
  key. Its third argument (\<^verbatim>\<open>override\<close>) is kept as the source passes it, but neither
  the sources at hand nor the specification give it an effect, and none is modelled.
\<close>

fun TerrainMap_update :: "int \<Rightarrow> terrain \<Rightarrow> (int \<times> terrain) list \<Rightarrow> (int \<times> terrain) list" where
  "TerrainMap_update k t [] = [(k, t)]"
| "TerrainMap_update k t (p # ps) =
     (if fst p = k then (k, t) # ps else p # TerrainMap_update k t ps)"

definition TerrainMap_set ::
  "int \<Rightarrow> terrain \<Rightarrow> bool \<Rightarrow> (int \<times> terrain) list \<Rightarrow> (int \<times> terrain) list" where
  "TerrainMap_set k t override m = TerrainMap_update k t m"


text \<open>
  Modelled from the spec: \<^verbatim>\<open>TerrainMap.hasTerrainId\<close> (\<^verbatim>\<open>TerrainMap.js\<close> is missing),
  the registry's \<^verbatim>\<open>lookupById(id)\<close> as a test: whether some key is bound to a terrain
  of this id.
\<close>

definition hasTerrainId :: "(int \<times> terrain) list \<Rightarrow> string \<Rightarrow> bool" where
  "hasTerrainId m i = list_ex (\<lambda>p. tid (snd p) = i) m"

text \<open>
  Modelled from the spec: \<^verbatim>\<open>TerrainMap.keyForValue\<close> (\<^verbatim>\<open>TerrainMap.js\<close> is missing):
  the key bound to the terrain, a terrain being known by its id.
\<close>

definition keyForValue :: "(int \<times> terrain) list \<Rightarrow> terrain \<Rightarrow> int option" where
  "keyForValue m t = map_option fst (find (\<lambda>p. tid (snd p) = tid t) m)"

text \<open>
  Modelled from the spec: \<^verbatim>\<open>TerrainMap.add\<close> (\<^verbatim>\<open>TerrainMap.js\<close> is missing), the
  registry's \<^verbatim>\<open>register\<close>: it assigns the lowest unused key in [1,31] and fails with
  \<^verbatim>\<open>CapacityExceeded\<close> when all 31 non-zero keys are in use.
\<close>

definition TerrainMap_add ::
  "terrain \<Rightarrow> (int \<times> terrain) list \<Rightarrow> error + int \<times> (int \<times> terrain) list" where
  "TerrainMap_add t m =
     (case find (\<lambda>k. \<not> TerrainMap_has m k) (map int [1..<32]) of
        None \<Rightarrow> Inl CapacityExceeded
      | Some k \<Rightarrow> Inr (k, TerrainMap_set k t False m))"

text \<open>
  Modelled from the spec: the property \<^verbatim>\<open>Terrain.pixelValue\<close> (\<^verbatim>\<open>Terrain.js\<close> is not
  part of the sources at hand). The pixel value of a terrain is its scene-local integer
  key: the key under which the scene map binds the terrain, assigned when the terrain is
  added to the scene and released when it is removed. A terrain that has none reads as
  0; the source tests the property with \<^verbatim>\<open>!terrain.pixelValue\<close>, which does not tell
  the two apart.
\<close>

definition pixelValue :: "('tex, 'cache, 'pc) TerrainLayer \<Rightarrow> terrain \<Rightarrow> int" where
  "pixelValue s t = (case keyForValue (sceneMap s) t of None \<Rightarrow> 0 | Some k \<Rightarrow> k)"

text \<open>\<^verbatim>\<open>terrainForPixel(pixelValue) { return this.sceneMap.get(pixelValue); }\<close>\<close>

definition terrainForPixel :: "('tex, 'cache, 'pc) TerrainLayer \<Rightarrow> int \<Rightarrow> terrain option" where
  "terrainForPixel s px = TerrainMap_get (sceneMap s) px"

text \<open>\<^verbatim>\<open>_inSceneMap(terrain) { return this.sceneMap.hasTerrainId(terrain.id); }\<close>\<close>

definition inSceneMap :: "('tex, 'cache, 'pc) TerrainLayer \<Rightarrow> terrain \<Rightarrow> bool" where
  "inSceneMap s t = hasTerrainId (sceneMap s) (tid t)"

text \<open>
  \<^verbatim>\<open>_addTerrainToScene(terrain)\<close>: the pixel value of the terrain in the scene, and the
  layer object. The refresh of the controls does not touch the layer object.
\<close>

definition addTerrainToScene ::
  "terrain \<Rightarrow> ('tex, 'cache, 'pc) TerrainLayer \<Rightarrow> error + int \<times> ('tex, 'cache, 'pc) TerrainLayer" where
  "addTerrainToScene t s =
     (if inSceneMap s t
      then Inr ((case keyForValue (sceneMap s) t of None \<Rightarrow> 0 | Some k \<Rightarrow> k), s)
      else (case TerrainMap_add t (sceneMap s) of
              Inl e \<Rightarrow> Inl e
            | Inr (px, m) \<Rightarrow> Inr (px, s\<lparr>sceneMap := m, requiresSave := True\<rparr>)))"

text \<open>
  Modelled from the spec: \<^verbatim>\<open>Terrain.addToScene\<close> (\<^verbatim>\<open>Terrain.js\<close> is not part of the
  sources at hand). A terrain is assigned its pixel value when it is added to a scene:
  it registers through \<^verbatim>\<open>_addTerrainToScene\<close>.
\<close>

definition addToScene ::
  "terrain \<Rightarrow> ('tex, 'cache, 'pc) TerrainLayer \<Rightarrow> error + ('tex, 'cache, 'pc) TerrainLayer" where
  "addToScene t s =
     (case addTerrainToScene t s of
        Inl e \<Rightarrow> Inl e
      | Inr (px, s') \<Rightarrow> Inr s')"




subsection \<open>Rendering\<close>

text \<open>
  The loop of \<^verbatim>\<open>renderTerrain\<close> over the graphics containers, from index \<^verbatim>\<open>i\<close> on.
  \<^verbatim>\<open>render\<close> is the host renderer, a parameter: it is given the colour channel of the
  container's mask (\<^verbatim>\<open>LAYER_COLORS[i % 3]\<close>, set in \<^verbatim>\<open>#firstInitialize\<close>), the
  container's children, the \<^verbatim>\<open>clear\<close> flag and the render texture. Without a render
  texture the renderer draws to the screen and no texture changes.
\<close>

fun renderLayers ::
  "(nat \<Rightarrow> graphics list \<Rightarrow> bool \<Rightarrow> 'tex \<Rightarrow> 'tex) \<Rightarrow> int \<Rightarrow> nat \<Rightarrow> graphics list list
    \<Rightarrow> bool \<Rightarrow> 'tex list \<Rightarrow> 'tex list" where
  "renderLayers render lyr i [] clear texs = texs"
| "renderLayers render lyr i (layerContainer # rest) clear texs =
     (let texToRender = lyr div 3; texIdx = i div 3 in
      if bitwiseNot lyr \<noteq> 0 \<and> int texIdx \<noteq> texToRender
      then renderLayers render lyr (Suc i) rest clear texs
      else renderLayers render lyr (Suc i) rest False
             (case at_index texs (int texIdx) of
                None \<Rightarrow> texs
              | Some renderTexture \<Rightarrow>
                  texs[texIdx := render (i mod 3) layerContainer clear renderTexture]))"

text \<open>\<^verbatim>\<open>renderTerrain(layer = -1)\<close>\<close>

definition renderTerrain ::
  "(nat \<Rightarrow> graphics list \<Rightarrow> bool \<Rightarrow> 'tex \<Rightarrow> 'tex) \<Rightarrow> int \<Rightarrow> ('tex, 'cache, 'pc) TerrainLayer
    \<Rightarrow> ('tex, 'cache, 'pc) TerrainLayer" where
  "renderTerrain render lyr s =
     clearPixelCacheArray lyr
       (s\<lparr>terrainTextures :=
            renderLayers render lyr 0 (graphicsLayers s) True (terrainTextures s)\<rparr>)"

text \<open>
  \<^verbatim>\<open>_drawTerrainShape(shape, terrain)\<close>: the graphics object and the layer object, whose
  container for the shape's layer has the graphics as its last child. A layer without a
  container is a \<^verbatim>\<open>TypeError\<close> at \<^verbatim>\<open>layerContainer.addChild\<close>.
\<close>

definition drawTerrainShape ::
  "shape \<Rightarrow> terrain \<Rightarrow> ('tex, 'cache, 'pc) TerrainLayer
    \<Rightarrow> error + graphics \<times> ('tex, 'cache, 'pc) TerrainLayer" where
  "drawTerrainShape shp t s =
     (let lyr = layer shp;
          channel = lyr mod 3;
          g = \<lparr>colorArr = (replicate 3 0)[channel := of_int (pixelValue s t) / 255], drawn = shp\<rparr>
      in case at_index (graphicsLayers s) (int lyr) of
           None \<Rightarrow> Inl TypeError
         | Some layerContainer \<Rightarrow>
             Inr (g, s\<lparr>graphicsLayers := (graphicsLayers s)[lyr := layerContainer @ [g]]\<rparr>))"

text \<open>\<^verbatim>\<open>_removeTerrainShape(shape, graphics)\<close>\<close>

definition removeTerrainShape ::
  "shape \<Rightarrow> graphics \<Rightarrow> ('tex, 'cache, 'pc) TerrainLayer \<Rightarrow> error + ('tex, 'cache, 'pc) TerrainLayer" where
  "removeTerrainShape shp g s =
     (case at_index (graphicsLayers s) (int (layer shp)) of
        None \<Rightarrow> Inl TypeError
      | Some layerContainer \<Rightarrow>
          Inr (s\<lparr>graphicsLayers := (graphicsLayers s)[layer shp := remove1 g layerContainer]\<rparr>))"

text \<open>
  \<^verbatim>\<open>_drawTerrainName(shape)\<close>: the text label, \<^verbatim>\<open>undefined\<close> for a shape of pixel value
  0. Reading \<^verbatim>\<open>terrain.name\<close> of a pixel value the scene map does not bind is a
  \<^verbatim>\<open>TypeError\<close>. The label containers are not part of the layer object here.
\<close>

definition drawTerrainName ::
  "shape \<Rightarrow> ('tex, 'cache, 'pc) TerrainLayer \<Rightarrow> error + label option" where
  "drawTerrainName shp s =
     (if shapePixelValue shp = 0 then Inr None
      else (case TerrainMap_get (sceneMap s) (shapePixelValue shp) of
              None \<Rightarrow> Inl TypeError
            | Some t \<Rightarrow> Inr (Some \<lparr>labelAt = origin shp, caption = name t\<rparr>)))"

subsection \<open>Shape queues\<close>

text \<open>A loop whose body can throw: the first error ends it.\<close>

fun fold_err :: "('a \<Rightarrow> 's \<Rightarrow> error + 's) \<Rightarrow> 'a list \<Rightarrow> 's \<Rightarrow> error + 's" where
  "fold_err f [] s = Inr s"
| "fold_err f (x # xs) s = (case f x s of Inl e \<Rightarrow> Inl e | Inr s' \<Rightarrow> fold_err f xs s')"

text \<open>
  Modelled from the spec: the scan of \<^verbatim>\<open>ShapeQueue.clean\<close> over the older prefix
  (\<^verbatim>\<open>ShapeQueue.js\<close> is not part of the sources at hand). An entry is removed when its
  shape is fully superseded by a later entry of the queue, an entry of the prefix behind
  it or one of the recent entries. \<^verbatim>\<open>covers later earlier\<close> is the geometric test (same
  or smaller area, entirely covered, same layer), a parameter. The result is the
  removed entries and the entries of the prefix that stay.
\<close>

fun scanOlder ::
  "(shape \<Rightarrow> shape \<Rightarrow> bool) \<Rightarrow> queueObj list \<Rightarrow> queueObj list \<Rightarrow> queueObj list \<times> queueObj list" where
  "scanOlder covers [] recent = ([], [])"
| "scanOlder covers (e # older) recent =
     (let (removed, kept) = scanOlder covers older recent in
      if list_ex (\<lambda>later. covers (qshape later) (qshape e)) (older @ recent)
      then (e # removed, kept)
      else (removed, e # kept))"

text \<open>
  Modelled from the spec: \<^verbatim>\<open>ShapeQueue.clean(retain)\<close> (\<^verbatim>\<open>ShapeQueue.js\<close> is not part
  of the sources at hand). Given the number of most recent entries to keep untouched, it
  scans the older prefix, removes the entries that are fully superseded and returns
  them. The result is the removed entries and the queue that is left.
\<close>

definition clean ::
  "(shape \<Rightarrow> shape \<Rightarrow> bool) \<Rightarrow> nat \<Rightarrow> queueObj list \<Rightarrow> queueObj list \<times> queueObj list" where
  "clean covers retain q =
     (let n = length q - retain;
          (removed, kept) = scanOlder covers (take n q) (drop n q)
      in (removed, kept @ drop n q))"

text \<open>\<^verbatim>\<open>#removeShape(queueObj)\<close>\<close>

definition removeShape ::
  "queueObj \<Rightarrow> ('tex, 'cache, 'pc) TerrainLayer \<Rightarrow> error + ('tex, 'cache, 'pc) TerrainLayer" where
  "removeShape queueObj s =
     (let layerIdx = layer (qshape queueObj) in
      case at_index (graphicsLayers s) (int layerIdx) of
        None \<Rightarrow> Inl TypeError
      | Some lyr \<Rightarrow>
          Inr (s\<lparr>graphicsLayers := (graphicsLayers s)[layerIdx := remove1 (qgraphics queueObj) lyr]\<rparr>))"

text \<open>\<^verbatim>\<open>#cleanShapeQueue(layerNum)\<close>\<close>

definition cleanShapeQueue ::
  "(shape \<Rightarrow> shape \<Rightarrow> bool) \<Rightarrow> (nat \<Rightarrow> graphics list \<Rightarrow> bool \<Rightarrow> 'tex \<Rightarrow> 'tex) \<Rightarrow> nat
    \<Rightarrow> ('tex, 'cache, 'pc) TerrainLayer \<Rightarrow> error + ('tex, 'cache, 'pc) TerrainLayer" where
  "cleanShapeQueue covers render layerNum s =
     (let skip = NUM_UNDO in
      case at_index (shapeQueueArray s) (int layerNum) of
        None \<Rightarrow> Inl TypeError
      | Some queue \<Rightarrow>
          if length queue < skip then Inr s
          else
            (let (removedElements, queue') = clean covers skip queue;
                 s1 = s\<lparr>shapeQueueArray := (shapeQueueArray s)[layerNum := queue']\<rparr>
             in if removedElements = [] then Inr s1
                else (case fold_err removeShape removedElements s1 of
                        Inl e \<Rightarrow> Inl e
                      | Inr s2 \<Rightarrow> Inr (renderTerrain render (int layerNum) s2))))"

text \<open>
  What \<^verbatim>\<open>#cleanShapeQueue\<close> leaves of a queue: the queue itself when it is shorter than
  \<^verbatim>\<open>NUM_UNDO\<close>, and what \<^verbatim>\<open>clean\<close> leaves of it otherwise.
\<close>

definition cleaned :: "(shape \<Rightarrow> shape \<Rightarrow> bool) \<Rightarrow> queueObj list \<Rightarrow> queueObj list" where
  "cleaned covers q = (if length q < NUM_UNDO then q else snd (clean covers NUM_UNDO q))"

text \<open>\<^verbatim>\<open>cleanAllShapeQueues()\<close>\<close>

definition cleanAllShapeQueues ::
  "(shape \<Rightarrow> shape \<Rightarrow> bool) \<Rightarrow> (nat \<Rightarrow> graphics list \<Rightarrow> bool \<Rightarrow> 'tex \<Rightarrow> 'tex)
    \<Rightarrow> ('tex, 'cache, 'pc) TerrainLayer \<Rightarrow> error + ('tex, 'cache, 'pc) TerrainLayer" where
  "cleanAllShapeQueues covers render s =
     fold_err (cleanShapeQueue covers render) [0..<MAX_LAYERS] s"

text \<open>\<^verbatim>\<open>isPixelValueInScene(pixelValue)\<close>\<close>

definition isPixelValueInScene :: "int \<Rightarrow> ('tex, 'cache, 'pc) TerrainLayer \<Rightarrow> bool" where
  "isPixelValueInScene px s =
     (if px = 0 \<or> px < 0 \<or> px > 31 then False
      else list_ex (\<lambda>queue. list_ex (\<lambda>e. shapePixelValue (qshape e) = px) queue)
             (shapeQueueArray s))"

subsection \<open>Adding shapes\<close>

text \<open>
  \<^verbatim>\<open>addTerrainShapeToCanvas(shape, terrain, { temporary })\<close>: the graphics returned and
  the layer object. The key of the temporary graphics map is \<^verbatim>\<open>shape.origin.key\<close>,
  here the origin itself.
\<close>

definition addTerrainShapeToCanvas ::
  "(nat \<Rightarrow> graphics list \<Rightarrow> bool \<Rightarrow> 'tex \<Rightarrow> 'tex) \<Rightarrow> shape \<Rightarrow> terrain \<Rightarrow> bool
    \<Rightarrow> ('tex, 'cache, 'pc) TerrainLayer
    \<Rightarrow> error + graphics \<times> ('tex, 'cache, 'pc) TerrainLayer" where
  "addTerrainShapeToCanvas render shp0 t temporary s =
     (case (if \<not> hasTerrainId (sceneMap s) (tid t) then addToScene t s else Inr s) of
        Inl e \<Rightarrow> Inl e
      | Inr s1 \<Rightarrow>
          (let shp = shp0\<lparr>shapePixelValue := pixelValue s1 t, layer := currentLayer s1\<rparr> in
           case (if temporary
                 then (case temporaryGraphics s1 (origin shp) of
                         None \<Rightarrow> Inr s1
                       | Some (oldShape, oldGraphics) \<Rightarrow> removeTerrainShape oldShape oldGraphics s1)
                 else Inr s1) of
             Inl e \<Rightarrow> Inl e
           | Inr s2 \<Rightarrow>
               (case drawTerrainShape shp t s2 of
                  Inl e \<Rightarrow> Inl e
                | Inr (g, s3) \<Rightarrow>
                    (let s4 = renderTerrain render (int (layer shp)) s3 in
                     case (if temporary
                           then Inr (s4\<lparr>temporaryGraphics :=
                                          (temporaryGraphics s4)(origin shp \<mapsto> (shp, g))\<rparr>)
                           else (case drawTerrainName shp s4 of
                                   Inl e \<Rightarrow> Inl e
                                 | Inr text \<Rightarrow>
                                     (case at_index (shapeQueueArray s4) (int (layer shp)) of
                                        None \<Rightarrow> Inl TypeError
                                      | Some queue \<Rightarrow>
                                          Inr (s4\<lparr>shapeQueueArray :=
                                                 (shapeQueueArray s4)
                                                   [layer shp :=
                                                      queue @ [\<lparr>qshape = shp, qgraphics = g,
                                                                qtext = text\<rparr>]]\<rparr>)))) of
                       Inl e \<Rightarrow> Inl e
                     | Inr s5 \<Rightarrow> Inr (g, s5\<lparr>requiresSave := \<not> temporary\<rparr>)))))"

text \<open>What \<^verbatim>\<open>fill\<close> tells the user through \<^verbatim>\<open>ui.notifications.warn\<close>.\<close>

datatype notification = CannotLocateClosedBoundary point

text \<open>The loop of \<^verbatim>\<open>fill\<close> over the simplified shapes.\<close>

fun fillShapes ::
  "(nat \<Rightarrow> graphics list \<Rightarrow> bool \<Rightarrow> 'tex \<Rightarrow> 'tex) \<Rightarrow> shape list \<Rightarrow> terrain
    \<Rightarrow> ('tex, 'cache, 'pc) TerrainLayer \<Rightarrow> error + ('tex, 'cache, 'pc) TerrainLayer" where
  "fillShapes render [] t s = Inr s"
| "fillShapes render (shp # shapes) t s =
     (case addTerrainShapeToCanvas render shp t False s of
        Inl e \<Rightarrow> Inl e
      | Inr (g, s') \<Rightarrow> fillShapes render shapes t s')"

text \<open>
  \<^verbatim>\<open>fill(origin, terrain)\<close>: the warning shown, if any, and the layer object; the method
  itself returns \<^verbatim>\<open>undefined\<close> on both paths. \<^verbatim>\<open>encompassingPolygonWithHoles\<close> is the
  boundary resolver of the wall graph (\<^verbatim>\<open>SCENE_GRAPH\<close>), a parameter;
  \<^verbatim>\<open>holedShapes polys pixelValue\<close> is
  \<^verbatim>\<open>new TerrainShapeHoled(polys, { pixelValue }).simplify()\<close>, a parameter.
\<close>

definition fill ::
  "(nat \<Rightarrow> graphics list \<Rightarrow> bool \<Rightarrow> 'tex \<Rightarrow> 'tex) \<Rightarrow> (point \<Rightarrow> point list list)
    \<Rightarrow> (point list list \<Rightarrow> int \<Rightarrow> shape list) \<Rightarrow> point \<Rightarrow> terrain
    \<Rightarrow> ('tex, 'cache, 'pc) TerrainLayer
    \<Rightarrow> error + notification option \<times> ('tex, 'cache, 'pc) TerrainLayer" where
  "fill render encompassingPolygonWithHoles holedShapes orig t s =
     (let polys = encompassingPolygonWithHoles orig in
      if length polys = 0 then Inr (Some (CannotLocateClosedBoundary orig), s)
      else
        (let shapes = holedShapes polys (pixelValue s t) in
         case fillShapes render shapes t s of
           Inl e \<Rightarrow> Inl e
         | Inr s' \<Rightarrow> Inr (None, s')))"

subsection \<open>Loading scene data\<close>







subsection \<open>Terrain levels and queries\<close>

text \<open>
  The anchor choices (\<^verbatim>\<open>FLAGS.CHOICES\<close> of \<^verbatim>\<open>const.js\<close>, three distinct values), and
  the JavaScript values \<^verbatim>\<open>getAnchorElevation\<close> can return.
\<close>

datatype anchor_choice = ABSOLUTE | RELATIVE_TO_TERRAIN | RELATIVE_TO_LAYER

datatype js_value = Number int | Undefined | Method string

text \<open>
  A \<^verbatim>\<open>TerrainLevel\<close>. \<^verbatim>\<open>anchor\<close> is what \<^verbatim>\<open>this.anchor\<close> reads: the class declares no
  such property and its constructor sets none, so it is \<^verbatim>\<open>undefined\<close> unless it is put
  on the object from outside.
\<close>

record TerrainLevel =
  lterrain :: "terrain option"
  level :: nat
  anchor :: "anchor_choice option"

text \<open>
  \<^verbatim>\<open>new TerrainLevel(terrain, level)\<close>; \<^verbatim>\<open>currentTerrain\<close> is
  \<^verbatim>\<open>canvas.terrain.controls.currentTerrain\<close>, which stands in for a terrain that is
  \<^verbatim>\<open>undefined\<close>. The level is a layer index here, never \<^verbatim>\<open>null\<close> or \<^verbatim>\<open>undefined\<close>.
\<close>

definition new_TerrainLevel :: "terrain option \<Rightarrow> terrain option \<Rightarrow> nat \<Rightarrow> TerrainLevel" where
  "new_TerrainLevel currentTerrain t lvl =
     \<lparr>lterrain = (case t of None \<Rightarrow> currentTerrain | Some x \<Rightarrow> Some x), level = lvl,
      anchor = None\<rparr>"

text \<open>
  \<^verbatim>\<open>getAnchorElevation(location)\<close>. The identifier \<^verbatim>\<open>terrainElevation\<close> is bound nowhere
  in the module, so evaluating the call is a \<^verbatim>\<open>ReferenceError\<close>;
  \<^verbatim>\<open>this._layerElevation\<close> is the method, not its result.
\<close>

definition getAnchorElevation :: "TerrainLevel \<Rightarrow> point option \<Rightarrow> error + js_value" where
  "getAnchorElevation lv location =
     (case anchor lv of
        Some ABSOLUTE \<Rightarrow> Inr (Number 0)
      | Some RELATIVE_TO_TERRAIN \<Rightarrow>
          (case location of Some p \<Rightarrow> Inl ReferenceError | None \<Rightarrow> Inr (Number 0))
      | Some RELATIVE_TO_LAYER \<Rightarrow> Inr (Method ''_layerElevation'')
      | None \<Rightarrow> Inr Undefined)"

text \<open>
  \<^verbatim>\<open>_layerElevation()\<close>: the entry of the scene's layer elevations at this level.
\<close>

definition layerElevation :: "int list \<Rightarrow> TerrainLevel \<Rightarrow> js_value" where
  "layerElevation layerElevations lv =
     (case at_index layerElevations (int (level lv)) of None \<Rightarrow> Undefined | Some e \<Rightarrow> Number e)"

text \<open>
  \<^verbatim>\<open>activeAt(elevation, location)\<close>, through \<^verbatim>\<open>elevationRange\<close>.
  \<^verbatim>\<open>elevationMinMax\<close> is \<^verbatim>\<open>Terrain._elevationMinMaxForAnchorElevation\<close>, a parameter;
  \<^verbatim>\<open>between\<close> includes both ends.
\<close>

definition activeAt ::
  "(terrain \<Rightarrow> js_value \<Rightarrow> int \<times> int) \<Rightarrow> TerrainLevel \<Rightarrow> int \<Rightarrow> point option \<Rightarrow> error + bool" where
  "activeAt elevationMinMax lv elevation location =
     (case getAnchorElevation lv location of
        Inl e \<Rightarrow> Inl e
      | Inr anchorE \<Rightarrow>
          (case lterrain lv of
             None \<Rightarrow> Inl TypeError
           | Some t \<Rightarrow>
               (let minMaxE = elevationMinMax t anchorE
                in Inr (fst minMaxE \<le> elevation \<and> elevation \<le> snd minMaxE))))"

text \<open>The loop of \<^verbatim>\<open>_layersToTerrainLevels\<close>, from index \<^verbatim>\<open>i\<close> on.\<close>

fun layersToTerrainLevels_from ::
  "terrain option \<Rightarrow> ('tex, 'cache, 'pc) TerrainLayer \<Rightarrow> nat \<Rightarrow> 8 word list \<Rightarrow> TerrainLevel list" where
  "layersToTerrainLevels_from currentTerrain s i [] = []"
| "layersToTerrainLevels_from currentTerrain s i (px # rest) =
     (if px = 0 then layersToTerrainLevels_from currentTerrain s (Suc i) rest
      else new_TerrainLevel currentTerrain (terrainForPixel s (uint px)) i
             # layersToTerrainLevels_from currentTerrain s (Suc i) rest)"

text \<open>\<^verbatim>\<open>_layersToTerrainLevels(terrainLayers)\<close>\<close>

definition layersToTerrainLevels ::
  "terrain option \<Rightarrow> ('tex, 'cache, 'pc) TerrainLayer \<Rightarrow> 8 word list \<Rightarrow> TerrainLevel list" where
  "layersToTerrainLevels currentTerrain s terrainLayers =
     layersToTerrainLevels_from currentTerrain s 0 terrainLayers"

text \<open>
  \<^verbatim>\<open>terrainLevelsAt(pt)\<close>, with \<^verbatim>\<open>_terrainLayersAt\<close> inlined: the levels and the layer
  object after the read of the pixel cache. \<^verbatim>\<open>terrainLayersAt\<close> is the point query of
  the merged \<^verbatim>\<open>TerrainPixelCache\<close>, a parameter.
\<close>

definition terrainLevelsAt ::
  "('tex option \<Rightarrow> 'cache \<Rightarrow> 'cache) \<Rightarrow> ('cache option \<Rightarrow> 'cache option \<Rightarrow> 'pc \<Rightarrow> 'pc)
    \<Rightarrow> ('pc \<Rightarrow> point \<Rightarrow> 8 word list) \<Rightarrow> terrain option \<Rightarrow> point
    \<Rightarrow> ('tex, 'cache, 'pc) TerrainLayer
    \<Rightarrow> error + TerrainLevel list \<times> ('tex, 'cache, 'pc) TerrainLayer" where
  "terrainLevelsAt updateFromTexture updateFromTerrainLayerCaches terrainLayersAt currentTerrain pt s =
     (if \<not> initialized s then Inr ([], s)
      else (case pixelCache_get updateFromTexture updateFromTerrainLayerCaches s of
              Inl e \<Rightarrow> Inl e
            | Inr (pc, s') \<Rightarrow>
                Inr (layersToTerrainLevels currentTerrain s' (terrainLayersAt pc pt), s')))"


text \<open>The filter of \<^verbatim>\<open>activeTerrainLevelsAt\<close>, whose predicate can throw.\<close>

fun filter_err :: "('a \<Rightarrow> error + bool) \<Rightarrow> 'a list \<Rightarrow> error + 'a list" where
  "filter_err f [] = Inr []"
| "filter_err f (x # xs) =
     (case f x of
        Inl e \<Rightarrow> Inl e
      | Inr b \<Rightarrow>
          (case filter_err f xs of
             Inl e \<Rightarrow> Inl e
           | Inr ys \<Rightarrow> Inr (if b then x # ys else ys)))"

text \<open>\<^verbatim>\<open>activeTerrainLevelsAt(pt, elevation)\<close>, for a given elevation.\<close>

definition activeTerrainLevelsAt ::
  "('tex option \<Rightarrow> 'cache \<Rightarrow> 'cache) \<Rightarrow> ('cache option \<Rightarrow> 'cache option \<Rightarrow> 'pc \<Rightarrow> 'pc)
    \<Rightarrow> ('pc \<Rightarrow> point \<Rightarrow> 8 word list) \<Rightarrow> terrain option \<Rightarrow> (terrain \<Rightarrow> js_value \<Rightarrow> int \<times> int)
    \<Rightarrow> point \<Rightarrow> int \<Rightarrow> ('tex, 'cache, 'pc) TerrainLayer
    \<Rightarrow> error + TerrainLevel list \<times> ('tex, 'cache, 'pc) TerrainLayer" where
  "activeTerrainLevelsAt updateFromTexture updateFromTerrainLayerCaches terrainLayersAt
      currentTerrain elevationMinMax pt elevation s =
     (case terrainLevelsAt updateFromTexture updateFromTerrainLayerCaches terrainLayersAt
             currentTerrain pt s of
        Inl e \<Rightarrow> Inl e
      | Inr (terrainLevels, s') \<Rightarrow>
          (case filter_err (\<lambda>t. activeAt elevationMinMax t elevation (Some pt)) terrainLevels of
             Inl e \<Rightarrow> Inl e
           | Inr active \<Rightarrow> Inr (active, s')))"

subsection \<open>A small scene\<close>

text \<open>
  A layer object with six empty layers, two render textures and the terrain
  \<open>swamp\<close> registered under pixel value 17; textures and caches are numbers. Buffer 1
  is dirty, buffer 0 is clean.
\<close>

definition nullT :: terrain where
  "nullT = \<lparr>tid = ''null'', name = ''No terrain''\<rparr>"

definition swamp :: terrain where
  "swamp = \<lparr>tid = ''swamp'', name = ''Swamp''\<rparr>"

definition exampleLayer :: "(nat, nat, nat) TerrainLayer" where
  "exampleLayer =
     \<lparr>initialized = True, requiresSave = False,
      sceneMap = [(0, nullT), (17, swamp)],
      pixelCacheArray = [0, 0], pixelCache = 0, pixelCacheDirty = [0, 1],
      temporaryGraphics = Map.empty,
      graphicsLayers = [[], [], [], [], [], []],
      terrainTextures = [3, 4],
      shapeQueueArray = [[], [], [], [], [], []],
      currentLayer = 4\<rparr>"

text \<open>A cache that copies its texture, and a merged cache that adds the two up.\<close>

definition copyTexture :: "nat option \<Rightarrow> nat \<Rightarrow> nat" where
  "copyTexture tex c = (case tex of None \<Rightarrow> c | Some x \<Rightarrow> x)"

definition sumCaches :: "nat option \<Rightarrow> nat option \<Rightarrow> nat \<Rightarrow> nat" where
  "sumCaches c0 c1 pc = (case (c0, c1) of (Some a, Some b) \<Rightarrow> a + b | _ \<Rightarrow> pc)"

text \<open>A square painted with no terrain (pixel value 0) on layer 0.\<close>

definition erasedSquare :: queueObj where
  "erasedSquare =
     (let shp = \<lparr>geom = TerrainGridSquare, origin = (0, 0), shapePixelValue = 0, layer = 0\<rparr>
      in \<lparr>qshape = shp, qgraphics = \<lparr>colorArr = [0, 0, 0], drawn = shp\<rparr>, qtext = None\<rparr>)"

text \<open>
  A grid square for layer 4, and a renderer whose texture counts the children drawn
  into it since it was last cleared.
\<close>

definition squareOnLayer4 :: shape where
  "squareOnLayer4 = \<lparr>geom = TerrainGridSquare, origin = (100, 200), shapePixelValue = 17, layer = 4\<rparr>"

definition countChildren :: "nat \<Rightarrow> graphics list \<Rightarrow> bool \<Rightarrow> nat \<Rightarrow> nat" where
  "countChildren channel children clear tex = (if clear then 0 else tex) + length children"

text \<open>
  A square painted with terrain 17 and then painted over twenty times with no terrain,
  all on layer 0 of the small scene; a later shape covers an earlier one here when both
  have the same origin.
\<close>

definition paintedSquare :: queueObj where
  "paintedSquare =
     (let shp = \<lparr>geom = TerrainGridSquare, origin = (0, 0), shapePixelValue = 17, layer = 0\<rparr>
      in \<lparr>qshape = shp, qgraphics = \<lparr>colorArr = [17 / 255, 0, 0], drawn = shp\<rparr>,
          qtext = Some \<lparr>labelAt = (0, 0), caption = ''Swamp''\<rparr>\<rparr>)"

definition sameOrigin :: "shape \<Rightarrow> shape \<Rightarrow> bool" where
  "sameOrigin later earlier = (origin later = origin earlier)"

definition busyLayer :: "(nat, nat, nat) TerrainLayer" where
  "busyLayer =
     exampleLayer\<lparr>shapeQueueArray := [paintedSquare # replicate 20 erasedSquare, [], [], [], [], []]\<rparr>"




section \<open>Properties\<close>

subsection \<open>The bitwise complement of a layer index\<close>

lemma bitwiseNot_eq_0_iff: "bitwiseNot x = 0 \<longleftrightarrow> x mod 2 ^ 32 = 2 ^ 32 - 1"
proof -
  have "bitwiseNot x = 0 \<longleftrightarrow> NOT (word_of_int x :: 32 word) = 0"
    by (simp add: bitwiseNot_def signed_eq_0_iff)
  also have "\<dots> \<longleftrightarrow> (word_of_int x :: 32 word) = word_of_int (- 1)"
    by (metis bit.compl_zero bit.double_compl of_int_minus of_int_1)
  also have "\<dots> \<longleftrightarrow> x mod 2 ^ 32 = 2 ^ 32 - 1"
    by (simp only: word_of_int_eq_iff take_bit_eq_mod) simp
  finally show ?thesis .
qed

lemma bitwiseNot_minus_one [simp]: "bitwiseNot (- 1) = 0"
  by (simp add: bitwiseNot_def)

lemma bitwiseNot_layer [simp]: "0 \<le> x \<Longrightarrow> x < 2 ^ 31 \<Longrightarrow> bitwiseNot x \<noteq> 0"
  by (simp add: bitwiseNot_eq_0_iff)

lemma bitwiseNot_wraps: "bitwiseNot 4 = - 5" "bitwiseNot 4294967295 = 0"
  by (simp_all add: bitwiseNot_def)

subsection \<open>Marking the pixel cache dirty\<close>

text \<open>
  C1. Marking a single layer dirty is claimed to set the dirty bit of the buffer that
  owns the layer and of no other, and marking with the default argument to set every
  bit. The code does the opposite. With both bits clear, \<^verbatim>\<open>_clearPixelCacheArray(4)\<close>
  sets both bits, so painting layer 4 also forces the rebuild of buffer 0; and
  \<^verbatim>\<open>_clearPixelCacheArray(-1)\<close> sets none, because the write goes to index -1 of the
  typed array.
\<close>

theorem clearPixelCacheArray_branches_swapped:
  "pixelCacheDirty (clearPixelCacheArray 4 (s\<lparr>pixelCacheDirty := [0, 0]\<rparr>)) = [1, 1]
   \<and> pixelCacheDirty (clearPixelCacheArray (- 1) (s\<lparr>pixelCacheDirty := [0, 0]\<rparr>)) = [0, 0]"
  by (simp add: clearPixelCacheArray_def)

subsection \<open>Reading the pixel cache\<close>

lemma list_NUM_TEXTURES:
  assumes "length xs = NUM_TEXTURES"
  obtains a b where "xs = [a, b]"
  using assms by (cases xs; cases "tl xs"; auto simp: NUM_TEXTURES_def MAX_LAYERS_def)

lemma pixelCache_get_eq:
  assumes "length (pixelCacheDirty s) = NUM_TEXTURES"
    and "length (pixelCacheArray s) = NUM_TEXTURES"
    and "length (terrainTextures s) = NUM_TEXTURES"
  shows "pixelCache_get upd mrg s =
     (let rebuilt = (\<lambda>i. if dirtyAt s (int i)
                          then upd (Some (terrainTextures s ! i)) (pixelCacheArray s ! i)
                          else pixelCacheArray s ! i);
          s' = s\<lparr>pixelCacheArray := [rebuilt 0, rebuilt 1],
                 pixelCache := (if dirtyAt s 0 \<or> dirtyAt s 1
                                then mrg (Some (rebuilt 0)) (Some (rebuilt 1)) (pixelCache s)
                                else pixelCache s),
                 pixelCacheDirty := [0, 0]\<rparr>
      in Inr (pixelCache s', s'))"
proof -
  obtain d0 d1 where d: "pixelCacheDirty s = [d0, d1]"
    using assms(1) by (rule list_NUM_TEXTURES)
  obtain c0 c1 where c: "pixelCacheArray s = [c0, c1]"
    using assms(2) by (rule list_NUM_TEXTURES)
  obtain t0 t1 where t: "terrainTextures s = [t0, t1]"
    using assms(3) by (rule list_NUM_TEXTURES)
  show ?thesis
    using d c t
    by (auto simp: pixelCache_get_def pixelCacheDirty_get_def refreshPixelCache_def
        refreshPixelCacheArray_def dirtyAt_def at_index_def Let_def)
qed

text \<open>
  C2. Every read of the merged pixel cache (the \<^verbatim>\<open>pixelCache\<close> getter) first rebuilds
  each buffer whose dirty bit is set from that buffer's texture, clears those bits and,
  when a bit was set, recomputes the merged cache from the two buffers; the value
  returned is the merged cache of the layer object after the read, in which no dirty bit
  is set. A read that finds no bit set changes nothing. \<^verbatim>\<open>terrainLevelsAt\<close> on an
  initialised layer decodes the point from the value this read returns.
\<close>

theorem pixelCache_read_rebuilds_dirty:
  assumes "length (pixelCacheDirty s) = NUM_TEXTURES"
    and "length (pixelCacheArray s) = NUM_TEXTURES"
    and "length (terrainTextures s) = NUM_TEXTURES"
  shows "\<exists>pc s'. pixelCache_get upd mrg s = Inr (pc, s')
      \<and> pc = pixelCache s'
      \<and> \<not> pixelCacheDirty_get s' \<and> pixelCacheDirty s' = [0, 0]
      \<and> (\<forall>i < NUM_TEXTURES. pixelCacheArray s' ! i =
            (if dirtyAt s (int i)
             then upd (Some (terrainTextures s ! i)) (pixelCacheArray s ! i)
             else pixelCacheArray s ! i))
      \<and> length (pixelCacheArray s') = NUM_TEXTURES
      \<and> terrainTextures s' = terrainTextures s
      \<and> (pixelCacheDirty_get s \<longrightarrow>
           pixelCache s' = mrg (at_index (pixelCacheArray s') 0) (at_index (pixelCacheArray s') 1)
                             (pixelCache s))
      \<and> (\<not> pixelCacheDirty_get s \<longrightarrow> s' = s)
      \<and> (initialized s \<longrightarrow>
           terrainLevelsAt upd mrg terrainLayersAt cur pt s =
             Inr (layersToTerrainLevels cur s' (terrainLayersAt pc pt), s'))"
proof -
  obtain d0 d1 where d: "pixelCacheDirty s = [d0, d1]"
    using assms(1) by (rule list_NUM_TEXTURES)
  obtain c0 c1 where c: "pixelCacheArray s = [c0, c1]"
    using assms(2) by (rule list_NUM_TEXTURES)
  have clean: "s\<lparr>pixelCacheArray := [c0, c1], pixelCache := pixelCache s, pixelCacheDirty := [0, 0]\<rparr> = s"
    if "d0 = 0" "d1 = 0"
    using d c that by simp
  have "\<exists>pc s'. pixelCache_get upd mrg s = Inr (pc, s')
      \<and> pc = pixelCache s'
      \<and> \<not> pixelCacheDirty_get s' \<and> pixelCacheDirty s' = [0, 0]
      \<and> (\<forall>i < NUM_TEXTURES. pixelCacheArray s' ! i =
            (if dirtyAt s (int i)
             then upd (Some (terrainTextures s ! i)) (pixelCacheArray s ! i)
             else pixelCacheArray s ! i))
      \<and> length (pixelCacheArray s') = NUM_TEXTURES
      \<and> terrainTextures s' = terrainTextures s
      \<and> (pixelCacheDirty_get s \<longrightarrow>
           pixelCache s' = mrg (at_index (pixelCacheArray s') 0) (at_index (pixelCacheArray s') 1)
                             (pixelCache s))
      \<and> (\<not> pixelCacheDirty_get s \<longrightarrow> s' = s)"
    unfolding pixelCache_get_eq [OF assms]
    using d c clean
    by (auto simp: Let_def pixelCacheDirty_get_def dirtyAt_def at_index_def NUM_TEXTURES_def
        MAX_LAYERS_def less_Suc_eq)
  then obtain pc s' where r: "pixelCache_get upd mrg s = Inr (pc, s')"
    and rest: "pc = pixelCache s'
      \<and> \<not> pixelCacheDirty_get s' \<and> pixelCacheDirty s' = [0, 0]
      \<and> (\<forall>i < NUM_TEXTURES. pixelCacheArray s' ! i =
            (if dirtyAt s (int i)
             then upd (Some (terrainTextures s ! i)) (pixelCacheArray s ! i)
             else pixelCacheArray s ! i))
      \<and> length (pixelCacheArray s') = NUM_TEXTURES
      \<and> terrainTextures s' = terrainTextures s
      \<and> (pixelCacheDirty_get s \<longrightarrow>
           pixelCache s' = mrg (at_index (pixelCacheArray s') 0) (at_index (pixelCacheArray s') 1)
                             (pixelCache s))
      \<and> (\<not> pixelCacheDirty_get s \<longrightarrow> s' = s)"
    by blast
  have "initialized s \<longrightarrow>
           terrainLevelsAt upd mrg terrainLayersAt cur pt s =
             Inr (layersToTerrainLevels cur s' (terrainLayersAt pc pt), s')"
    using r by (simp add: terrainLevelsAt_def)
  with r rest show ?thesis by blast
qed

theorem pixelCache_read_rebuilds_dirty_witness:
  "length (pixelCacheDirty exampleLayer) = NUM_TEXTURES
   \<and> length (pixelCacheArray exampleLayer) = NUM_TEXTURES
   \<and> length (terrainTextures exampleLayer) = NUM_TEXTURES
   \<and> pixelCacheDirty_get exampleLayer
   \<and> pixelCache_get copyTexture sumCaches exampleLayer =
       Inr (4, exampleLayer\<lparr>pixelCacheArray := [0, 4], pixelCache := 4,
                             pixelCacheDirty := [0, 0]\<rparr>)"
proof -
  have l: "length (pixelCacheDirty exampleLayer) = NUM_TEXTURES"
    "length (pixelCacheArray exampleLayer) = NUM_TEXTURES"
    "length (terrainTextures exampleLayer) = NUM_TEXTURES"
    by (simp_all add: exampleLayer_def NUM_TEXTURES_def MAX_LAYERS_def)
  show ?thesis
    using l pixelCache_read_rebuilds_dirty [OF l, of copyTexture sumCaches]
    by (simp add: pixelCache_get_def pixelCacheDirty_get_def refreshPixelCache_def
        refreshPixelCacheArray_def dirtyAt_def at_index_def Let_def exampleLayer_def
        copyTexture_def sumCaches_def)
qed

subsection \<open>Fill without an enclosing boundary\<close>

text \<open>
  C5. When the boundary resolver finds no polygon around the origin, \<^verbatim>\<open>fill\<close> warns
  that no closed boundary can be located, produces no shape, and leaves the layer object
  as it was: every shape queue, texture, pixel cache and dirty bit is unchanged.
\<close>

theorem fill_no_boundary_unchanged:
  "length (encompassingPolygonWithHoles orig) = 0 \<Longrightarrow>
     fill render encompassingPolygonWithHoles holedShapes orig t s =
       Inr (Some (CannotLocateClosedBoundary orig), s)"
  by (simp add: fill_def)

theorem fill_no_boundary_unchanged_witness:
  "length ((\<lambda>p. []) (5 :: int, 7 :: int)) = 0
   \<and> fill (\<lambda>ch children clear tex. Suc tex) (\<lambda>p. []) (\<lambda>polys px. []) (5, 7) swamp exampleLayer =
       Inr (Some (CannotLocateClosedBoundary (5, 7)), exampleLayer)"
  using fill_no_boundary_unchanged
    [of "\<lambda>p. []" "(5, 7)" "\<lambda>ch children clear tex. Suc tex" "\<lambda>polys px. []" swamp exampleLayer]
  by simp

subsection \<open>Pixel values in use\<close>

text \<open>
  C7, as the claim states it, fails: with a shape of pixel value 0 enqueued on layer 0,
  \<^verbatim>\<open>isPixelValueInScene(0)\<close> is false.
\<close>

theorem isPixelValueInScene_zero_counterexample:
  "erasedSquare \<in> set (shapeQueueArray (exampleLayer\<lparr>shapeQueueArray := [[erasedSquare]]\<rparr>) ! 0)
   \<and> shapePixelValue (qshape erasedSquare) = 0
   \<and> \<not> isPixelValueInScene 0 (exampleLayer\<lparr>shapeQueueArray := [[erasedSquare]]\<rparr>)"
  by (simp add: isPixelValueInScene_def erasedSquare_def Let_def)

text \<open>
  C7, amended. For a pixel value in [1,31], \<^verbatim>\<open>isPixelValueInScene\<close> is true exactly
  when the shape queue of some layer holds a shape of that pixel value; for 0 and for
  every value outside [1,31] it is false, whatever the queues hold.
\<close>

theorem isPixelValueInScene_iff:
  "isPixelValueInScene v s \<longleftrightarrow>
     1 \<le> v \<and> v \<le> 31
     \<and> (\<exists>queue \<in> set (shapeQueueArray s). \<exists>e \<in> set queue. shapePixelValue (qshape e) = v)"
  by (auto simp: isPixelValueInScene_def list_ex_iff)

theorem isPixelValueInScene_iff_witness:
  "isPixelValueInScene 17
     (exampleLayer\<lparr>shapeQueueArray :=
        [[erasedSquare\<lparr>qshape := (qshape erasedSquare)\<lparr>shapePixelValue := 17\<rparr>\<rparr>]]\<rparr>)
   \<and> \<not> isPixelValueInScene 17 (exampleLayer\<lparr>shapeQueueArray := [[erasedSquare]]\<rparr>)"
  using isPixelValueInScene_iff
    [of 17 "exampleLayer\<lparr>shapeQueueArray :=
        [[erasedSquare\<lparr>qshape := (qshape erasedSquare)\<lparr>shapePixelValue := 17\<rparr>\<rparr>]]\<rparr>"]
    isPixelValueInScene_iff [of 17 "exampleLayer\<lparr>shapeQueueArray := [[erasedSquare]]\<rparr>"]
  by (simp add: erasedSquare_def Let_def)

subsection \<open>Terrain levels at a point\<close>










subsection \<open>Anchor elevation of a terrain level\<close>

text \<open>
  C8. The elevation range of a terrain level is claimed to be anchored at the numeric
  elevation configured for its layer when the anchor is relative to the layer, and at
  the terrain elevation at the point when it is relative to the terrain. For a level on
  layer 2 with layer elevation 10, \<^verbatim>\<open>getAnchorElevation\<close> returns the method
  \<^verbatim>\<open>_layerElevation\<close> itself, not the number 10 that calling it gives; with the anchor
  relative to the terrain and a location it throws a \<^verbatim>\<open>ReferenceError\<close>; and for a
  level as its constructor builds it the anchor read is \<^verbatim>\<open>undefined\<close> and so is the
  result.
\<close>

theorem getAnchorElevation_not_numeric:
  "getAnchorElevation \<lparr>lterrain = Some swamp, level = 2, anchor = Some RELATIVE_TO_LAYER\<rparr>
       (Some (0, 0)) = Inr (Method ''_layerElevation'')
   \<and> layerElevation [0, 0, 10, 0, 0, 0, 0, 0]
       \<lparr>lterrain = Some swamp, level = 2, anchor = Some RELATIVE_TO_LAYER\<rparr> = Number 10
   \<and> getAnchorElevation \<lparr>lterrain = Some swamp, level = 2, anchor = Some RELATIVE_TO_TERRAIN\<rparr>
       (Some (0, 0)) = Inl ReferenceError
   \<and> getAnchorElevation (new_TerrainLevel None (Some swamp) 2) (Some (0, 0)) = Inr Undefined"
  by (simp add: getAnchorElevation_def layerElevation_def at_index_def new_TerrainLevel_def)

subsection \<open>Drawing a shape into its channel\<close>






subsection \<open>Compaction of the shape queues\<close>

lemma scanOlder_Cons:
  "scanOlder covers (e # older) recent =
     (if list_ex (\<lambda>later. covers (qshape later) (qshape e)) (older @ recent)
      then (e # fst (scanOlder covers older recent), snd (scanOlder covers older recent))
      else (fst (scanOlder covers older recent), e # snd (scanOlder covers older recent)))"
  by (simp add: case_prod_unfold Let_def)

lemma scanOlder_subseq: "subseq (snd (scanOlder covers older recent)) older"
  by (induction older) (auto simp: scanOlder_Cons simp del: scanOlder.simps(2) intro: list_emb_Cons)

lemma scanOlder_set:
  "set older = set (snd (scanOlder covers older recent)) \<union> set (fst (scanOlder covers older recent))"
  by (induction older) (auto simp: scanOlder_Cons simp del: scanOlder.simps(2))

lemma scanOlder_removed:
  "x \<in> set (fst (scanOlder covers older recent)) \<Longrightarrow>
     \<exists>pre post. older = pre @ x # post
       \<and> (\<exists>later \<in> set (post @ recent). covers (qshape later) (qshape x))"
proof (induction older)
  case Nil
  then show ?case by simp
next
  case (Cons e older)
  show ?case
  proof (cases "x \<in> set (fst (scanOlder covers older recent))")
    case True
    with Cons.IH obtain pre post where "older = pre @ x # post"
      "\<exists>later \<in> set (post @ recent). covers (qshape later) (qshape x)"
      by blast
    then have "e # older = (e # pre) @ x # post
       \<and> (\<exists>later \<in> set (post @ recent). covers (qshape later) (qshape x))"
      by simp
    then show ?thesis by blast
  next
    case False
    with Cons.prems have "x = e"
      and "list_ex (\<lambda>later. covers (qshape later) (qshape e)) (older @ recent)"
      by (auto simp: scanOlder_Cons simp del: scanOlder.simps(2) split: if_splits)
    then have "e # older = [] @ x # older
       \<and> (\<exists>later \<in> set (older @ recent). covers (qshape later) (qshape x))"
      by (simp add: list_ex_iff)
    then show ?thesis by blast
  qed
qed

lemma clean_eq:
  "clean covers retain q =
     (fst (scanOlder covers (take (length q - retain) q) (drop (length q - retain) q)),
      snd (scanOlder covers (take (length q - retain) q) (drop (length q - retain) q))
        @ drop (length q - retain) q)"
  by (simp add: clean_def Let_def case_prod_unfold)

lemma clean_recent:
  "drop (length (snd (clean covers retain q)) - retain) (snd (clean covers retain q)) =
     drop (length q - retain) q"
proof (cases "retain \<le> length q")
  case True
  then show ?thesis by (simp add: clean_eq)
next
  case False
  then show ?thesis by (simp add: clean_eq)
qed

lemma clean_removed:
  assumes "x \<in> set (fst (clean covers retain q))"
  shows "\<exists>pre post. q = pre @ x # post \<and> length pre < length q - retain
       \<and> (\<exists>later \<in> set post. covers (qshape later) (qshape x))"
proof -
  let ?n = "length q - retain"
  from assms have "x \<in> set (fst (scanOlder covers (take ?n q) (drop ?n q)))"
    by (simp add: clean_eq)
  from scanOlder_removed [OF this] obtain pre post where t: "take ?n q = pre @ x # post"
    and c: "\<exists>later \<in> set (post @ drop ?n q). covers (qshape later) (qshape x)"
    by blast
  have "q = take ?n q @ drop ?n q" by simp
  with t have q: "q = pre @ x # (post @ drop ?n q)" by simp
  from t have "length pre < length (take ?n q)" by simp
  then have "length pre < ?n" by simp
  with q c show ?thesis by blast
qed

lemma clearPixelCacheArray_queues [simp]:
  "shapeQueueArray (clearPixelCacheArray lyr s) = shapeQueueArray s"
  by (simp add: clearPixelCacheArray_def Let_def)

lemma renderTerrain_queues [simp]:
  "shapeQueueArray (renderTerrain render lyr s) = shapeQueueArray s"
  by (simp add: renderTerrain_def)

lemma removeShape_queues:
  "removeShape e s = Inr s' \<Longrightarrow> shapeQueueArray s' = shapeQueueArray s"
  by (auto simp: removeShape_def Let_def split: option.splits)

lemma fold_err_removeShape_queues:
  "fold_err removeShape es s = Inr s' \<Longrightarrow> shapeQueueArray s' = shapeQueueArray s"
proof (induction es arbitrary: s)
  case Nil
  then show ?case by simp
next
  case (Cons e es)
  then show ?case
    by (auto split: sum.splits dest: removeShape_queues)
qed

lemma cleanShapeQueue_queues:
  assumes "cleanShapeQueue covers render n s = Inr s'"
  shows "n < length (shapeQueueArray s)
     \<and> shapeQueueArray s' = (shapeQueueArray s)[n := cleaned covers (shapeQueueArray s ! n)]"
proof -
  from assms have n: "n < length (shapeQueueArray s)"
    by (auto simp: cleanShapeQueue_def at_index_def split: if_splits)
  show ?thesis
  proof (cases "length (shapeQueueArray s ! n) < NUM_UNDO")
    case True
    with assms n show ?thesis
      by (simp add: cleanShapeQueue_def at_index_def cleaned_def)
  next
    case False
    with assms n show ?thesis
      by (auto simp: cleanShapeQueue_def at_index_def cleaned_def Let_def case_prod_unfold
          split: if_splits sum.splits dest: fold_err_removeShape_queues)
  qed
qed

lemma cleanShapeQueue_short:
  assumes "n < length (shapeQueueArray s)" and "length (shapeQueueArray s ! n) < NUM_UNDO"
  shows "cleanShapeQueue covers render n s = Inr s"
  using assms by (simp add: cleanShapeQueue_def at_index_def)

lemma fold_clean_queues:
  "fold_err (cleanShapeQueue covers render) ns s = Inr s' \<Longrightarrow>
     shapeQueueArray s' = fold (\<lambda>n qs. qs[n := cleaned covers (qs ! n)]) ns (shapeQueueArray s)"
proof (induction ns arbitrary: s)
  case Nil
  then show ?case by simp
next
  case (Cons n ns)
  then show ?case
    by (auto split: sum.splits dest: cleanShapeQueue_queues)
qed

lemma fold_clean_short:
  "\<forall>n \<in> set ns. n < length (shapeQueueArray s) \<and> length (shapeQueueArray s ! n) < NUM_UNDO \<Longrightarrow>
     fold_err (cleanShapeQueue covers render) ns s = Inr s"
  by (induction ns) (simp_all add: cleanShapeQueue_short)

lemma fold_update_upt:
  "n \<le> length qs \<Longrightarrow>
     fold (\<lambda>k qs. qs[k := f (qs ! k)]) [0..<n] qs = map f (take n qs) @ drop n qs"
proof (induction n)
  case 0
  then show ?case by simp
next
  case (Suc n)
  then have n: "n < length qs" by simp
  have "(map f (take n qs) @ drop n qs)[n := f ((map f (take n qs) @ drop n qs) ! n)] =
        map f (take (Suc n) qs) @ drop (Suc n) qs"
    using n
    by (simp add: list_update_append nth_append take_Suc_conv_app_nth
        Cons_nth_drop_Suc [symmetric])
  with Suc show ?case by simp
qed

text \<open>
  C4. After \<^verbatim>\<open>cleanAllShapeQueues\<close> (compaction with \<^verbatim>\<open>NUM_UNDO\<close> = 20 entries
  retained), the queue of every layer that held fewer than 20 entries is what it was,
  and the whole layer object is unchanged when every queue is that short; the 20 most
  recent entries of a longer queue are the 20 last entries of the queue afterwards; the
  queue afterwards is a subsequence of the queue before, in the same order; and an entry
  that is gone was older than the 20 most recent and is covered by an entry behind it.
  \<^verbatim>\<open>ShapeQueue.clean\<close> is modelled from the specification, the coverage test is a
  parameter.
\<close>

theorem cleanAllShapeQueues_keeps_recent:
  assumes "cleanAllShapeQueues covers render s = Inr s'"
    and "length (shapeQueueArray s) = MAX_LAYERS"
    and "i < MAX_LAYERS"
  shows "\<exists>queue queue'.
        queue = shapeQueueArray s ! i \<and> queue' = shapeQueueArray s' ! i
      \<and> (length queue < NUM_UNDO \<longrightarrow> queue' = queue)
      \<and> drop (length queue' - NUM_UNDO) queue' = drop (length queue - NUM_UNDO) queue
      \<and> subseq queue' queue
      \<and> (\<forall>x \<in> set queue. x \<notin> set queue' \<longrightarrow>
            (\<exists>pre post. queue = pre @ x # post \<and> length pre < length queue - NUM_UNDO
               \<and> (\<exists>later \<in> set post. covers (qshape later) (qshape x))))
      \<and> ((\<forall>q \<in> set (shapeQueueArray s). length q < NUM_UNDO) \<longrightarrow> s' = s)"
proof -
  let ?q = "shapeQueueArray s ! i" and ?q' = "shapeQueueArray s' ! i"
  from assms(1) have "shapeQueueArray s' =
      fold (\<lambda>n qs. qs[n := cleaned covers (qs ! n)]) [0..<MAX_LAYERS] (shapeQueueArray s)"
    unfolding cleanAllShapeQueues_def by (rule fold_clean_queues)
  also have "\<dots> = map (cleaned covers) (shapeQueueArray s)"
    using fold_update_upt [of MAX_LAYERS "shapeQueueArray s" "cleaned covers"] assms(2) by simp
  finally have q': "?q' = cleaned covers ?q"
    using assms(2,3) by simp
  have short: "length ?q < NUM_UNDO \<longrightarrow> ?q' = ?q"
    by (simp add: q' cleaned_def)
  have recent: "drop (length ?q' - NUM_UNDO) ?q' = drop (length ?q - NUM_UNDO) ?q"
    by (simp add: q' cleaned_def clean_recent)
  have sub: "subseq ?q' ?q"
  proof (cases "length ?q < NUM_UNDO")
    case True
    then show ?thesis by (simp add: q' cleaned_def)
  next
    case False
    let ?n = "length ?q - NUM_UNDO"
    have "subseq (snd (scanOlder covers (take ?n ?q) (drop ?n ?q)) @ drop ?n ?q)
            (take ?n ?q @ drop ?n ?q)"
      by (intro list_emb_append_mono scanOlder_subseq subseq_order.order_refl)
    with False show ?thesis by (simp add: q' cleaned_def clean_eq)
  qed
  have gone: "\<forall>x \<in> set ?q. x \<notin> set ?q' \<longrightarrow>
            (\<exists>pre post. ?q = pre @ x # post \<and> length pre < length ?q - NUM_UNDO
               \<and> (\<exists>later \<in> set post. covers (qshape later) (qshape x)))"
  proof (intro ballI impI)
    fix x assume x: "x \<in> set ?q" "x \<notin> set ?q'"
    let ?n = "length ?q - NUM_UNDO"
    from x have long: "\<not> length ?q < NUM_UNDO"
      by (auto simp: q' cleaned_def)
    from x(1) have "x \<in> set (take ?n ?q) \<union> set (drop ?n ?q)"
      by (metis append_take_drop_id set_append)
    moreover from x(2) long have "x \<notin> set (snd (scanOlder covers (take ?n ?q) (drop ?n ?q)))"
      "x \<notin> set (drop ?n ?q)"
      by (simp_all add: q' cleaned_def clean_eq)
    ultimately have "x \<in> set (fst (scanOlder covers (take ?n ?q) (drop ?n ?q)))"
      using scanOlder_set [of "take ?n ?q" covers "drop ?n ?q"] by blast
    then have "x \<in> set (fst (clean covers NUM_UNDO ?q))"
      by (simp add: clean_eq)
    then show "\<exists>pre post. ?q = pre @ x # post \<and> length pre < length ?q - NUM_UNDO
               \<and> (\<exists>later \<in> set post. covers (qshape later) (qshape x))"
      by (rule clean_removed)
  qed
  have same: "(\<forall>q \<in> set (shapeQueueArray s). length q < NUM_UNDO) \<longrightarrow> s' = s"
  proof
    assume a: "\<forall>q \<in> set (shapeQueueArray s). length q < NUM_UNDO"
    have "fold_err (cleanShapeQueue covers render) [0..<MAX_LAYERS] s = Inr s"
      by (rule fold_clean_short) (use a assms(2) in auto)
    with assms(1) show "s' = s"
      by (simp add: cleanAllShapeQueues_def)
  qed
  from short recent sub gone same show ?thesis by blast
qed

lemma busy_clean0:
  "cleanShapeQueue sameOrigin countChildren 0 busyLayer =
     Inr (busyLayer\<lparr>shapeQueueArray := [replicate 20 erasedSquare, [], [], [], [], []],
                    terrainTextures := [0, 4], pixelCacheDirty := [1, 1]\<rparr>)"
proof -
  have c: "clean sameOrigin 20 (paintedSquare # replicate 20 erasedSquare) =
      ([paintedSquare], replicate 20 erasedSquare)"
    by (simp add: clean_eq list_ex_iff sameOrigin_def paintedSquare_def
        erasedSquare_def Let_def)
  have gl: "graphicsLayers exampleLayer = [[], [], [], [], [], []]"
    by (simp add: exampleLayer_def)
  show ?thesis
    apply (simp add: cleanShapeQueue_def busyLayer_def at_index_def c NUM_UNDO_def)
    apply (simp add: removeShape_def at_index_def gl)
    apply (simp add: paintedSquare_def Let_def)
    apply (simp add: renderTerrain_def clearPixelCacheArray_def countChildren_def at_index_def
        gl exampleLayer_def)
    done
qed

theorem cleanAllShapeQueues_keeps_recent_witness:
  "cleanAllShapeQueues sameOrigin countChildren busyLayer =
     Inr (busyLayer\<lparr>shapeQueueArray := [replicate 20 erasedSquare, [], [], [], [], []],
                    terrainTextures := [0, 4], pixelCacheDirty := [1, 1]\<rparr>)
   \<and> length (shapeQueueArray busyLayer) = MAX_LAYERS
   \<and> (0 :: nat) < MAX_LAYERS
   \<and> shapeQueueArray busyLayer ! 0 = paintedSquare # replicate 20 erasedSquare
   \<and> drop (length (replicate 20 erasedSquare) - NUM_UNDO) (replicate 20 erasedSquare) =
       drop (length (paintedSquare # replicate 20 erasedSquare) - NUM_UNDO)
         (paintedSquare # replicate 20 erasedSquare)"
proof -
  let ?s' = "busyLayer\<lparr>shapeQueueArray := [replicate 20 erasedSquare, [], [], [], [], []],
                    terrainTextures := [0, 4], pixelCacheDirty := [1, 1]\<rparr>"
  have q: "shapeQueueArray ?s' = [replicate 20 erasedSquare, [], [], [], [], []]"
    by simp
  have rest: "fold_err (cleanShapeQueue sameOrigin countChildren) [1, 2, 3, 4, 5] ?s' = Inr ?s'"
    by (rule fold_clean_short) (simp add: NUM_UNDO_def)
  have up: "[0..<MAX_LAYERS] = [0, 1, 2, 3, 4, 5]"
    by (simp add: MAX_LAYERS_def upt_rec)
  have run: "cleanAllShapeQueues sameOrigin countChildren busyLayer = Inr ?s'"
    unfolding cleanAllShapeQueues_def up
    by (subst fold_err.simps(2)) (simp only: busy_clean0 sum.case rest)
  have h: "length (shapeQueueArray busyLayer) = MAX_LAYERS" "(0 :: nat) < MAX_LAYERS"
    by (simp_all add: busyLayer_def MAX_LAYERS_def)
  have b: "shapeQueueArray busyLayer ! 0 = paintedSquare # replicate 20 erasedSquare"
    by (simp add: busyLayer_def)
  from cleanAllShapeQueues_keeps_recent [OF run h]
  have "drop (length (shapeQueueArray ?s' ! 0) - NUM_UNDO) (shapeQueueArray ?s' ! 0) =
        drop (length (shapeQueueArray busyLayer ! 0) - NUM_UNDO) (shapeQueueArray busyLayer ! 0)"
    by blast
  then have "drop (length (replicate 20 erasedSquare) - NUM_UNDO) (replicate 20 erasedSquare) =
       drop (length (paintedSquare # replicate 20 erasedSquare) - NUM_UNDO)
         (paintedSquare # replicate 20 erasedSquare)"
    by (simp only: b q nth_Cons_0)
  with run h b show ?thesis by (intro conjI)
qed

subsection \<open>Adding a shape to the canvas\<close>

lemma addToScene_fields:
  assumes "addToScene t s = Inr s1"
  shows "shapeQueueArray s1 = shapeQueueArray s" and "currentLayer s1 = currentLayer s"
    and "temporaryGraphics s1 = temporaryGraphics s" and "graphicsLayers s1 = graphicsLayers s"
    and "terrainTextures s1 = terrainTextures s" and "pixelCacheDirty s1 = pixelCacheDirty s"
    and "pixelCacheArray s1 = pixelCacheArray s" and "pixelCache s1 = pixelCache s"
  using assms
  by (auto simp: addToScene_def addTerrainToScene_def split: sum.splits if_splits)

lemma removeTerrainShape_fields:
  assumes "removeTerrainShape shp g s = Inr s1"
  shows "shapeQueueArray s1 = shapeQueueArray s" and "currentLayer s1 = currentLayer s"
    and "temporaryGraphics s1 = temporaryGraphics s" and "sceneMap s1 = sceneMap s"
    and "terrainTextures s1 = terrainTextures s" and "pixelCacheDirty s1 = pixelCacheDirty s"
    and "pixelCacheArray s1 = pixelCacheArray s" and "pixelCache s1 = pixelCache s"
  using assms
  by (auto simp: removeTerrainShape_def split: option.splits)

lemma drawTerrainShape_fields:
  assumes "drawTerrainShape shp t s = Inr (g, s1)"
  shows "shapeQueueArray s1 = shapeQueueArray s" and "currentLayer s1 = currentLayer s"
    and "temporaryGraphics s1 = temporaryGraphics s" and "sceneMap s1 = sceneMap s"
    and "terrainTextures s1 = terrainTextures s" and "pixelCacheDirty s1 = pixelCacheDirty s"
    and "pixelCacheArray s1 = pixelCacheArray s" and "pixelCache s1 = pixelCache s"
  using assms
  by (auto simp: drawTerrainShape_def Let_def split: option.splits)

lemma clearPixelCacheArray_fields [simp]:
  "currentLayer (clearPixelCacheArray lyr s) = currentLayer s"
  "temporaryGraphics (clearPixelCacheArray lyr s) = temporaryGraphics s"
  "sceneMap (clearPixelCacheArray lyr s) = sceneMap s"
  "graphicsLayers (clearPixelCacheArray lyr s) = graphicsLayers s"
  "terrainTextures (clearPixelCacheArray lyr s) = terrainTextures s"
  "requiresSave (clearPixelCacheArray lyr s) = requiresSave s"
  by (simp_all add: clearPixelCacheArray_def Let_def)

lemma renderTerrain_fields [simp]:
  "currentLayer (renderTerrain render lyr s) = currentLayer s"
  "temporaryGraphics (renderTerrain render lyr s) = temporaryGraphics s"
  "sceneMap (renderTerrain render lyr s) = sceneMap s"
  "graphicsLayers (renderTerrain render lyr s) = graphicsLayers s"
  "requiresSave (renderTerrain render lyr s) = requiresSave s"
  by (simp_all add: renderTerrain_def)

text \<open>
  C10. Every call of \<^verbatim>\<open>addTerrainShapeToCanvas\<close> that completes leaves the
  requires-save flag at the negation of its \<^verbatim>\<open>temporary\<close> option, whatever the flag was.
  With \<^verbatim>\<open>temporary\<close> true no shape queue changes and the shape, with its graphics, is
  held in the temporary graphics map under its origin; with \<^verbatim>\<open>temporary\<close> false the
  temporary graphics map does not change and the shape, with the pixel value of the
  terrain and the current layer, is appended to the queue of the current layer.
\<close>

theorem addTerrainShapeToCanvas_requiresSave:
  assumes "addTerrainShapeToCanvas render shp t temporary s = Inr (g, s')"
  shows "requiresSave s' = (\<not> temporary)
     \<and> (temporary \<longrightarrow>
           shapeQueueArray s' = shapeQueueArray s
         \<and> temporaryGraphics s' =
             (temporaryGraphics s)
               (origin shp \<mapsto> (shp\<lparr>shapePixelValue := pixelValue s' t, layer := currentLayer s\<rparr>, g)))
     \<and> (\<not> temporary \<longrightarrow>
           currentLayer s < length (shapeQueueArray s)
         \<and> temporaryGraphics s' = temporaryGraphics s
         \<and> (\<exists>text. shapeQueueArray s' =
               (shapeQueueArray s)
                 [currentLayer s :=
                    shapeQueueArray s ! currentLayer s
                      @ [\<lparr>qshape = shp\<lparr>shapePixelValue := pixelValue s' t,
                                         layer := currentLayer s\<rparr>,
                          qgraphics = g, qtext = text\<rparr>]]))"
proof -
  let ?A = "if \<not> hasTerrainId (sceneMap s) (tid t) then addToScene t s else Inr s"
  show ?thesis
  proof (cases ?A)
    case (Inl e)
    with assms show ?thesis
      by (simp add: addTerrainShapeToCanvas_def)
  next
    case (Inr s1)
    note a1 = this
    have f1: "shapeQueueArray s1 = shapeQueueArray s" "currentLayer s1 = currentLayer s"
      "temporaryGraphics s1 = temporaryGraphics s"
      using a1 by (auto split: if_splits dest: addToScene_fields)
    let ?shp = "shp\<lparr>shapePixelValue := pixelValue s1 t, layer := currentLayer s1\<rparr>"
    let ?B = "if temporary
      then (case temporaryGraphics s1 (origin ?shp) of
              None \<Rightarrow> Inr s1
            | Some (oldShape, oldGraphics) \<Rightarrow> removeTerrainShape oldShape oldGraphics s1)
      else Inr s1"
    show ?thesis
    proof (cases ?B)
      case (Inl e)
      with assms a1 show ?thesis
        by (simp add: addTerrainShapeToCanvas_def)
    next
      case (Inr s2)
      note a2 = this
      have f2: "shapeQueueArray s2 = shapeQueueArray s1" "currentLayer s2 = currentLayer s1"
        "temporaryGraphics s2 = temporaryGraphics s1" "sceneMap s2 = sceneMap s1"
        using a2 by (auto split: if_splits option.splits dest: removeTerrainShape_fields)
      show ?thesis
      proof (cases "drawTerrainShape ?shp t s2")
        case (Inl e)
        with assms a1 a2 show ?thesis
          by (simp add: addTerrainShapeToCanvas_def)
      next
        case (Inr gs)
        then obtain g' s3 where a3: "drawTerrainShape ?shp t s2 = Inr (g', s3)"
          by (cases gs) simp
        have f3: "shapeQueueArray s3 = shapeQueueArray s2" "currentLayer s3 = currentLayer s2"
          "temporaryGraphics s3 = temporaryGraphics s2" "sceneMap s3 = sceneMap s2"
          using drawTerrainShape_fields [OF a3] by simp_all
        let ?s4 = "renderTerrain render (int (currentLayer s1)) s3"
        show ?thesis
        proof (cases temporary)
          case True
          with assms a1 a2 a3 have g: "g' = g"
            and s': "s' = ?s4\<lparr>temporaryGraphics := (temporaryGraphics s3)(origin shp \<mapsto> (?shp, g)),
                             requiresSave := False\<rparr>"
            by (auto simp: addTerrainShapeToCanvas_def)
          from s' have "pixelValue s' t = pixelValue s1 t"
            by (simp add: pixelValue_def f2 f3)
          with True s' show ?thesis
            by (simp add: f1 f2 f3)
        next
          case False
          note nt = this
          show ?thesis
          proof (cases "drawTerrainName ?shp ?s4")
            case (Inl e)
            with assms a1 a2 a3 nt show ?thesis
              by (simp add: addTerrainShapeToCanvas_def)
          next
            case (Inr lbl)
            note a4 = this
            show ?thesis
            proof (cases "at_index (shapeQueueArray s3) (int (currentLayer s1))")
              case None
              with assms a1 a2 a3 a4 nt show ?thesis
                by (simp add: addTerrainShapeToCanvas_def)
            next
              case (Some queue)
              with assms a1 a2 a3 a4 nt have g: "g' = g"
                and s': "s' = ?s4\<lparr>shapeQueueArray := (shapeQueueArray s3)
                     [currentLayer s1 := queue @ [\<lparr>qshape = ?shp, qgraphics = g, qtext = lbl\<rparr>]],
                     requiresSave := True\<rparr>"
                by (auto simp: addTerrainShapeToCanvas_def)
              from Some have r: "currentLayer s < length (shapeQueueArray s)"
                "queue = shapeQueueArray s ! currentLayer s"
                by (auto simp: at_index_def f1 f2 f3 split: if_splits)
              from s' have "pixelValue s' t = pixelValue s1 t"
                by (simp add: pixelValue_def f2 f3)
              with nt s' r show ?thesis
                by (auto simp: f1 f2 f3 intro: exI [of _ lbl])
            qed
          qed
        qed
      qed
    qed
  qed
qed

lemma example_hasTerrainId: "hasTerrainId (sceneMap exampleLayer) (tid swamp)"
  by (simp add: hasTerrainId_def exampleLayer_def swamp_def nullT_def)

lemma example_pixelValue: "pixelValue (exampleLayer\<lparr>requiresSave := b\<rparr>) swamp = 17"
  by (simp add: pixelValue_def keyForValue_def exampleLayer_def swamp_def nullT_def)

lemma example_shape:
  "squareOnLayer4\<lparr>shapePixelValue := 17, layer := currentLayer exampleLayer\<rparr> = squareOnLayer4"
  by (simp add: squareOnLayer4_def exampleLayer_def)

lemma example_draw:
  "drawTerrainShape squareOnLayer4 swamp (exampleLayer\<lparr>requiresSave := b\<rparr>) =
     Inr (\<lparr>colorArr = [0, 17 / 255, 0], drawn = squareOnLayer4\<rparr>,
          exampleLayer\<lparr>requiresSave := b, graphicsLayers :=
            [[], [], [], [], [\<lparr>colorArr = [0, 17 / 255, 0], drawn = squareOnLayer4\<rparr>], []]\<rparr>)"
proof -
  have gl: "graphicsLayers exampleLayer = [[], [], [], [], [], []]"
    by (simp add: exampleLayer_def)
  show ?thesis
    using example_pixelValue [of b] gl
    apply (simp add: drawTerrainShape_def at_index_def Let_def)
    apply (simp add: squareOnLayer4_def)
    apply (simp add: eval_nat_numeral)
    done
qed

lemma example_render:
  "renderTerrain countChildren 4
     (exampleLayer\<lparr>requiresSave := b, graphicsLayers :=
            [[], [], [], [], [\<lparr>colorArr = [0, 17 / 255, 0], drawn = squareOnLayer4\<rparr>], []]\<rparr>) =
   exampleLayer\<lparr>requiresSave := b, graphicsLayers :=
            [[], [], [], [], [\<lparr>colorArr = [0, 17 / 255, 0], drawn = squareOnLayer4\<rparr>], []],
            terrainTextures := [3, 1], pixelCacheDirty := [1, 1]\<rparr>"
  by (simp add: renderTerrain_def clearPixelCacheArray_def exampleLayer_def countChildren_def
      at_index_def)

lemma example_temporary:
  "addTerrainShapeToCanvas countChildren squareOnLayer4 swamp True
       (exampleLayer\<lparr>requiresSave := True\<rparr>) =
     Inr (\<lparr>colorArr = [0, 17 / 255, 0], drawn = squareOnLayer4\<rparr>,
          exampleLayer\<lparr>requiresSave := False, graphicsLayers :=
            [[], [], [], [], [\<lparr>colorArr = [0, 17 / 255, 0], drawn = squareOnLayer4\<rparr>], []],
            terrainTextures := [3, 1], pixelCacheDirty := [1, 1],
            temporaryGraphics :=
              [(100, 200) \<mapsto> (squareOnLayer4, \<lparr>colorArr = [0, 17 / 255, 0], drawn = squareOnLayer4\<rparr>)]\<rparr>)"
proof -
  have c: "currentLayer exampleLayer = 4" "temporaryGraphics exampleLayer = Map.empty"
    "int (layer squareOnLayer4) = 4" "origin squareOnLayer4 = (100, 200)"
    by (simp_all add: exampleLayer_def squareOnLayer4_def)
  show ?thesis
    using example_hasTerrainId example_shape example_pixelValue [of True]
      example_draw [of True] example_render [of True]
    by (simp add: addTerrainShapeToCanvas_def c)
qed

lemma example_permanent:
  "addTerrainShapeToCanvas countChildren squareOnLayer4 swamp False exampleLayer =
     Inr (\<lparr>colorArr = [0, 17 / 255, 0], drawn = squareOnLayer4\<rparr>,
          exampleLayer\<lparr>requiresSave := True, graphicsLayers :=
            [[], [], [], [], [\<lparr>colorArr = [0, 17 / 255, 0], drawn = squareOnLayer4\<rparr>], []],
            terrainTextures := [3, 1], pixelCacheDirty := [1, 1],
            shapeQueueArray :=
              [[], [], [], [],
               [\<lparr>qshape = squareOnLayer4,
                 qgraphics = \<lparr>colorArr = [0, 17 / 255, 0], drawn = squareOnLayer4\<rparr>,
                 qtext = Some \<lparr>labelAt = (100, 200), caption = ''Swamp''\<rparr>\<rparr>], []]\<rparr>)"
proof -
  have c: "currentLayer exampleLayer = 4" "temporaryGraphics exampleLayer = Map.empty"
    "int (layer squareOnLayer4) = 4" "origin squareOnLayer4 = (100, 200)"
    "shapeQueueArray exampleLayer = [[], [], [], [], [], []]"
    "sceneMap exampleLayer = [(0, nullT), (17, swamp)]" "name swamp = ''Swamp''"
    by (simp_all add: exampleLayer_def squareOnLayer4_def swamp_def)
  have c2: "layer squareOnLayer4 = 4"
    by (simp add: squareOnLayer4_def)
  have e: "exampleLayer\<lparr>requiresSave := requiresSave exampleLayer\<rparr> = exampleLayer"
    by simp
  have n: "drawTerrainName squareOnLayer4
       (exampleLayer\<lparr>graphicsLayers :=
            [[], [], [], [], [\<lparr>colorArr = [0, 17 / 255, 0], drawn = squareOnLayer4\<rparr>], []],
            terrainTextures := [3, 1], pixelCacheDirty := [1, 1]\<rparr>) =
       Inr (Some \<lparr>labelAt = (100, 200), caption = ''Swamp''\<rparr>)"
    by (simp add: drawTerrainName_def TerrainMap_get_def c squareOnLayer4_def)
  show ?thesis
    using example_hasTerrainId example_shape example_pixelValue [of "requiresSave exampleLayer"]
      example_draw [of "requiresSave exampleLayer"] example_render [of "requiresSave exampleLayer"]
      n
    apply (simp add: addTerrainShapeToCanvas_def e c at_index_def)
    apply (simp add: Let_def c2 c eval_nat_numeral)
    done
qed

theorem addTerrainShapeToCanvas_requiresSave_witness:
  "addTerrainShapeToCanvas countChildren squareOnLayer4 swamp True
       (exampleLayer\<lparr>requiresSave := True\<rparr>) =
     Inr (\<lparr>colorArr = [0, 17 / 255, 0], drawn = squareOnLayer4\<rparr>,
          exampleLayer\<lparr>requiresSave := False, graphicsLayers :=
            [[], [], [], [], [\<lparr>colorArr = [0, 17 / 255, 0], drawn = squareOnLayer4\<rparr>], []],
            terrainTextures := [3, 1], pixelCacheDirty := [1, 1],
            temporaryGraphics :=
              [(100, 200) \<mapsto> (squareOnLayer4, \<lparr>colorArr = [0, 17 / 255, 0], drawn = squareOnLayer4\<rparr>)]\<rparr>)
   \<and> addTerrainShapeToCanvas countChildren squareOnLayer4 swamp False exampleLayer =
     Inr (\<lparr>colorArr = [0, 17 / 255, 0], drawn = squareOnLayer4\<rparr>,
          exampleLayer\<lparr>requiresSave := True, graphicsLayers :=
            [[], [], [], [], [\<lparr>colorArr = [0, 17 / 255, 0], drawn = squareOnLayer4\<rparr>], []],
            terrainTextures := [3, 1], pixelCacheDirty := [1, 1],
            shapeQueueArray :=
              [[], [], [], [],
               [\<lparr>qshape = squareOnLayer4,
                 qgraphics = \<lparr>colorArr = [0, 17 / 255, 0], drawn = squareOnLayer4\<rparr>,
                 qtext = Some \<lparr>labelAt = (100, 200), caption = ''Swamp''\<rparr>\<rparr>], []]\<rparr>)
   \<and> shapeQueueArray (exampleLayer\<lparr>requiresSave := True\<rparr>) = [[], [], [], [], [], []]
   \<and> currentLayer exampleLayer = 4"
proof -
  have q: "shapeQueueArray (exampleLayer\<lparr>requiresSave := True\<rparr>) = [[], [], [], [], [], []]"
    "currentLayer exampleLayer = 4"
    by (simp_all add: exampleLayer_def)
  from addTerrainShapeToCanvas_requiresSave [OF example_temporary]
    addTerrainShapeToCanvas_requiresSave [OF example_permanent]
    example_temporary example_permanent q
  show ?thesis by (intro conjI)
qed

subsection \<open>Key 0 of the scene map\<close>























end
